theory Spec2Isabelle
  imports Complex_Main
begin

section \<open>JavaScript values\<close>

text \<open>
  The handlers of \<^verbatim>\<open>src/index.ts\<close> read request bodies produced by
  \<^verbatim>\<open>express.json()\<close> and objects handed back by the payment gateway's SDK. The
  TypeScript annotations are erased at run time, so a body is whatever JSON the client
  sent. Values are modelled as they exist at run time: \<open>JUndefined\<close> is the result of
  reading a property that is not there. The handlers never do arithmetic on a number;
  they only pass numbers through and test them for truthiness, so a number is a
  rational here. An object is the list of its own properties, keys distinct (as
  \<^verbatim>\<open>JSON.parse\<close> and an object literal produce them).
\<close>

datatype js =
    JUndefined
  | JNull
  | JBool bool
  | JNum rat
  | JStr string
  | JArr "js list"
  | JObj "(string \<times> js) list"

text \<open>Truthiness, as \<^verbatim>\<open>!x\<close>, \<^verbatim>\<open>x || y\<close> and \<^verbatim>\<open>x ? a : b\<close> test it.\<close>

fun truthy :: "js \<Rightarrow> bool" where
  "truthy JUndefined = False"
| "truthy JNull = False"
| "truthy (JBool b) = b"
| "truthy (JNum n) = (n \<noteq> 0)"
| "truthy (JStr s) = (s \<noteq> [])"
| "truthy (JArr xs) = True"
| "truthy (JObj kvs) = True"

fun nullish :: "js \<Rightarrow> bool" where
  "nullish JUndefined = True"
| "nullish JNull = True"
| "nullish v = False"

text \<open>
  What is thrown and caught: an instance of \<^verbatim>\<open>Error\<close> with its message, or any
  other value (JavaScript lets any value be thrown, and both \<^verbatim>\<open>catch\<close> blocks that
  build a \<^verbatim>\<open>details\<close> field test \<^verbatim>\<open>error instanceof Error\<close>).
\<close>

datatype thrown = Error_instance string | Non_error js

text \<open>
  \<^verbatim>\<open>v.k\<close> on a value that is neither \<^verbatim>\<open>null\<close> nor \<^verbatim>\<open>undefined\<close>. Only the
  properties the handlers read matter: an own property of an object, \<^verbatim>\<open>length\<close> of an
  array or a string, and \<^verbatim>\<open>undefined\<close> for everything else (none of the names the
  handlers read is inherited from a prototype, \<^verbatim>\<open>length\<close> apart).
\<close>

fun js_prop :: "js \<Rightarrow> string \<Rightarrow> js" where
  "js_prop (JObj kvs) k = (case map_of kvs k of Some v \<Rightarrow> v | None \<Rightarrow> JUndefined)"
| "js_prop (JArr xs) k = (if k = ''length'' then JNum (of_nat (length xs)) else JUndefined)"
| "js_prop (JStr s) k = (if k = ''length'' then JNum (of_nat (length s)) else JUndefined)"
| "js_prop v k = JUndefined"

text \<open>
  \<^verbatim>\<open>v.k\<close> in general: reading a property of \<^verbatim>\<open>null\<close> or \<^verbatim>\<open>undefined\<close> throws a
  TypeError. The message text is the engine's (V8's here); no result below depends on it.
\<close>

definition js_get :: "js \<Rightarrow> string \<Rightarrow> thrown + js" where
  "js_get v k =
     (if nullish v
      then Inl (Error_instance (''Cannot read properties of ''
                  @ (if v = JNull then ''null'' else ''undefined'')
                  @ '' (reading '' @ [CHR 0x27] @ k @ [CHR 0x27] @ '')''))
      else Inr (js_prop v k))"

text \<open>
  \<^verbatim>\<open>const { k, ... } = v\<close>: destructuring \<^verbatim>\<open>null\<close> or \<^verbatim>\<open>undefined\<close> throws a
  TypeError as well.
\<close>

definition destructure :: "js \<Rightarrow> string \<Rightarrow> thrown + js" where
  "destructure v k =
     (if nullish v
      then Inl (Error_instance (''Cannot destructure property '' @ [CHR 0x27] @ k @ [CHR 0x27]
                  @ '' of '' @ [CHR 0x27] @ ''req.body'' @ [CHR 0x27] @ '' as it is ''
                  @ (if v = JNull then ''null'' else ''undefined'') @ ''.''))
      else Inr (js_prop v k))"

text \<open>
  A template literal prints \<^verbatim>\<open>undefined\<close> for a missing value
  (\<^verbatim>\<open>process.env.FRONTEND_URL\<close> unset, no \<^verbatim>\<open>Host\<close> header).
\<close>

fun template :: "string option \<Rightarrow> string" where
  "template None = ''undefined''"
| "template (Some s) = s"

text \<open>
  \<^verbatim>\<open>Date.now()\<close> is an integer number of milliseconds, always of magnitude below
  \<open>10\<^sup>2\<^sup>1\<close>, so a template literal prints its decimal digits.
\<close>

fun nat_digits :: "nat \<Rightarrow> string" where
  "nat_digits n =
     (if n < 10 then [''0123456789'' ! n]
      else nat_digits (n div 10) @ [''0123456789'' ! (n mod 10)])"

declare nat_digits.simps [simp del]

definition number_string :: "int \<Rightarrow> string" where
  "number_string i = (if i < 0 then ''-'' @ nat_digits (nat (- i)) else nat_digits (nat i))"

section \<open>Requests, responses, the gateway and what a handler does\<close>

text \<open>
  What a handler reads of the inbound request: \<^verbatim>\<open>req.body\<close> (\<open>JUndefined\<close> when no
  JSON body was parsed), \<^verbatim>\<open>req.protocol\<close>, \<^verbatim>\<open>req.get('host')\<close> and
  \<^verbatim>\<open>req.params.id\<close>.
\<close>

record request =
  req_body :: js
  req_protocol :: string
  req_host :: "string option"
  req_params_id :: string

text \<open>
  What a handler answers: the status code (Express's default is 200 when
  \<^verbatim>\<open>res.status\<close> is not called) and the value given to \<^verbatim>\<open>res.json\<close>.
\<close>

record response =
  status :: nat
  json :: js

text \<open>The process environment, as far as the handlers read it.\<close>

record env =
  FRONTEND_URL :: "string option"

text \<open>
  The gateway SDK's two operations, \<^verbatim>\<open>preference.create({ body })\<close> and
  \<^verbatim>\<open>payment.get({ id })\<close>. Each either rejects with a thrown value or resolves with
  an object (the SDK's declared result types are interfaces), given by its properties.
  A handler makes at most one call, so a function of the argument stands for the
  gateway's answer to it.
\<close>

record gateway =
  preference_create :: "js \<Rightarrow> thrown + (string \<times> js) list"
  payment_get :: "js \<Rightarrow> thrown + (string \<times> js) list"

text \<open>
  The observable actions of a handler besides its response, in the order they happen:
  console output and gateway calls (with the \<^verbatim>\<open>body\<close> of the session request, and
  the \<^verbatim>\<open>id\<close> of the payment looked up).
\<close>

datatype effect =
    Console_log string js
  | Console_error string thrown
  | Preference_create js
  | Payment_get js

text \<open>
  A computation inside a \<^verbatim>\<open>try\<close> block: the effects so far, and either the thrown
  value that ended it or its result.
\<close>

type_synonym 'a comp = "effect list \<times> (thrown + 'a)"

definition ret :: "'a \<Rightarrow> 'a comp" where
  "ret x = ([], Inr x)"

definition emit :: "effect \<Rightarrow> unit comp" where
  "emit ef = ([ef], Inr ())"

definition lift :: "thrown + 'a \<Rightarrow> 'a comp" where
  "lift r = ([], r)"

definition bnd :: "'a comp \<Rightarrow> ('a \<Rightarrow> 'b comp) \<Rightarrow> 'b comp" where
  "bnd m f =
     (case m of
        (es, Inl e) \<Rightarrow> (es, Inl e)
      | (es, Inr x) \<Rightarrow> (case f x of (es', r) \<Rightarrow> (es @ es', r)))"

text \<open>\<^verbatim>\<open>await preference.create({ body: preferenceData })\<close>\<close>

definition call_preference_create :: "gateway \<Rightarrow> js \<Rightarrow> (string \<times> js) list comp" where
  "call_preference_create gw preferenceData =
     bnd (emit (Preference_create preferenceData)) (\<lambda>_.
     lift (preference_create gw preferenceData))"

text \<open>\<^verbatim>\<open>await payment.get({ id: paymentId })\<close>\<close>

definition call_payment_get :: "gateway \<Rightarrow> js \<Rightarrow> (string \<times> js) list comp" where
  "call_payment_get gw paymentId =
     bnd (emit (Payment_get paymentId)) (\<lambda>_.
     lift (payment_get gw paymentId))"

text \<open>\<^verbatim>\<open>error instanceof Error ? error.message : 'Unknown error'\<close>\<close>

fun error_details :: "thrown \<Rightarrow> string" where
  "error_details (Error_instance message) = message"
| "error_details (Non_error v) = ''Unknown error''"

section \<open>POST /api/create-preference\<close>

text \<open>
  The callback of \<^verbatim>\<open>items.map\<close>: five property reads of the item (the first of
  them throws when the item is \<^verbatim>\<open>null\<close>), and the fallback currency.
\<close>

definition map_item :: "js \<Rightarrow> thrown + js" where
  "map_item item =
     (case js_get item ''id'' of
        Inl e \<Rightarrow> Inl e
      | Inr item_id \<Rightarrow>
     (case js_get item ''title'' of
        Inl e \<Rightarrow> Inl e
      | Inr title \<Rightarrow>
     (case js_get item ''quantity'' of
        Inl e \<Rightarrow> Inl e
      | Inr quantity \<Rightarrow>
     (case js_get item ''unit_price'' of
        Inl e \<Rightarrow> Inl e
      | Inr unit_price \<Rightarrow>
     (case js_get item ''currency_id'' of
        Inl e \<Rightarrow> Inl e
      | Inr currency_id \<Rightarrow>
          Inr (JObj [(''id'', item_id),
                     (''title'', title),
                     (''quantity'', quantity),
                     (''unit_price'', unit_price),
                     (''currency_id'',
                        if truthy currency_id then currency_id else JStr ''PEN'')]))))))"

text \<open>The array's \<^verbatim>\<open>map\<close>, left to right, ended by the first throw.\<close>

fun map_items :: "js list \<Rightarrow> thrown + js list" where
  "map_items [] = Inr []"
| "map_items (item # rest) =
     (case map_item item of
        Inl e \<Rightarrow> Inl e
      | Inr out \<Rightarrow> (case map_items rest of Inl e \<Rightarrow> Inl e | Inr outs \<Rightarrow> Inr (out # outs)))"

text \<open>
  \<^verbatim>\<open>items.map(...)\<close> on any truthy value: only an array has a callable \<^verbatim>\<open>map\<close>
  (a parsed JSON object cannot hold a function), anything else throws a TypeError.
\<close>

definition items_map :: "js \<Rightarrow> thrown + js" where
  "items_map items =
     (case items of
        JArr xs \<Rightarrow> (case map_items xs of Inl e \<Rightarrow> Inl e | Inr outs \<Rightarrow> Inr (JArr outs))
      | _ \<Rightarrow> Inl (Error_instance ''items.map is not a function''))"

text \<open>The object literal \<^verbatim>\<open>preferenceData\<close>, given the mapped items.\<close>

definition preferenceData :: "env \<Rightarrow> int \<Rightarrow> request \<Rightarrow> js \<Rightarrow> js \<Rightarrow> js" where
  "preferenceData ev now req mapped payer =
     JObj [(''items'', mapped),
           (''payment_methods'',
              JObj [(''excluded_payment_methods'', JArr []),
                    (''excluded_payment_types'', JArr []),
                    (''installments'', JNum 12)]),
           (''back_urls'',
              JObj [(''success'', JStr (template (FRONTEND_URL ev) @ ''/success'')),
                    (''failure'', JStr (template (FRONTEND_URL ev) @ ''/failure'')),
                    (''pending'', JStr (template (FRONTEND_URL ev) @ ''/pending''))]),
           (''auto_return'', JStr ''approved''),
           (''payer'',
              if truthy payer
              then JObj [(''name'', js_prop payer ''name''),
                         (''email'', js_prop payer ''email''),
                         (''phone'', js_prop payer ''phone'')]
              else JUndefined),
           (''notification_url'',
              JStr (req_protocol req @ ''://'' @ template (req_host req) @ ''/api/webhook'')),
           (''statement_descriptor'', JStr ''MI_ECOMMERCE''),
           (''external_reference'', JStr (''order_'' @ number_string now))]"

text \<open>The \<^verbatim>\<open>try\<close> block; \<open>now\<close> is what \<^verbatim>\<open>Date.now()\<close> returns.\<close>

definition create_preference_try :: "env \<Rightarrow> gateway \<Rightarrow> int \<Rightarrow> request \<Rightarrow> response comp" where
  "create_preference_try ev gw now req =
     bnd (lift (destructure (req_body req) ''items'')) (\<lambda>items.
     bnd (lift (destructure (req_body req) ''payer'')) (\<lambda>payer.
     bnd (emit (Console_log ''Datos recibidos para crear preferencia:'' (req_body req))) (\<lambda>_.
     if \<not> truthy items \<or> js_prop items ''length'' = JNum 0
     then ret \<lparr>status = 400, json = JObj [(''error'', JStr ''Items are required'')]\<rparr>
     else
       bnd (lift (items_map items)) (\<lambda>mapped.
       bnd (emit (Console_log ''PreferenceData final:''
                    (preferenceData ev now req mapped payer))) (\<lambda>_.
       bnd (call_preference_create gw (preferenceData ev now req mapped payer)) (\<lambda>result.
       ret \<lparr>status = 200,
            json = JObj [(''id'', js_prop (JObj result) ''id''),
                         (''init_point'', js_prop (JObj result) ''init_point''),
                         (''sandbox_init_point'',
                            js_prop (JObj result) ''sandbox_init_point'')]\<rparr>))))))"

text \<open>The handler: the \<^verbatim>\<open>try\<close> block, and the \<^verbatim>\<open>catch\<close> block on a throw.\<close>

definition create_preference :: "env \<Rightarrow> gateway \<Rightarrow> int \<Rightarrow> request \<Rightarrow> response \<times> effect list" where
  "create_preference ev gw now req =
     (case create_preference_try ev gw now req of
        (es, Inr res) \<Rightarrow> (res, es)
      | (es, Inl error) \<Rightarrow>
          (\<lparr>status = 500,
            json = JObj [(''error'', JStr ''Error creating payment preference''),
                         (''details'', JStr (error_details error))]\<rparr>,
           es @ [Console_error ''Error creating preference:'' error]))"

section \<open>POST /api/webhook\<close>

text \<open>The \<^verbatim>\<open>switch\<close> on \<^verbatim>\<open>paymentInfo.status\<close>: each matched case only logs.\<close>

definition status_switch :: "js \<Rightarrow> js \<Rightarrow> unit comp" where
  "status_switch payment_status paymentId =
     (if payment_status = JStr ''approved'' then emit (Console_log ''Pago aprobado:'' paymentId)
      else if payment_status = JStr ''pending'' then emit (Console_log ''Pago pendiente:'' paymentId)
      else if payment_status = JStr ''rejected'' then emit (Console_log ''Pago rechazado:'' paymentId)
      else ret ())"

definition webhook_try :: "gateway \<Rightarrow> request \<Rightarrow> response comp" where
  "webhook_try gw req =
     bnd (lift (destructure (req_body req) ''type'')) (\<lambda>type.
     bnd (lift (destructure (req_body req) ''data'')) (\<lambda>data.
     bnd (emit (Console_log ''Webhook received:'' (JObj [(''type'', type), (''data'', data)]))) (\<lambda>_.
     bnd (if type = JStr ''payment''
          then
            bnd (lift (js_get data ''id'')) (\<lambda>paymentId.
            bnd (call_payment_get gw paymentId) (\<lambda>paymentInfo.
            bnd (emit (Console_log ''Payment info:''
                   (JObj [(''id'', js_prop (JObj paymentInfo) ''id''),
                          (''status'', js_prop (JObj paymentInfo) ''status''),
                          (''external_reference'',
                             js_prop (JObj paymentInfo) ''external_reference''),
                          (''transaction_amount'',
                             js_prop (JObj paymentInfo) ''transaction_amount'')]))) (\<lambda>_.
            status_switch (js_prop (JObj paymentInfo) ''status'') paymentId)))
          else ret ()) (\<lambda>_.
     ret \<lparr>status = 200, json = JObj [(''received'', JBool True)]\<rparr>))))"

definition webhook :: "gateway \<Rightarrow> request \<Rightarrow> response \<times> effect list" where
  "webhook gw req =
     (case webhook_try gw req of
        (es, Inr res) \<Rightarrow> (res, es)
      | (es, Inl error) \<Rightarrow>
          (\<lparr>status = 500, json = JObj [(''error'', JStr ''Webhook processing failed'')]\<rparr>,
           es @ [Console_error ''Webhook error:'' error]))"

section \<open>GET /api/payment/:id\<close>

definition get_payment_try :: "gateway \<Rightarrow> request \<Rightarrow> response comp" where
  "get_payment_try gw req =
     bnd (call_payment_get gw (JStr (req_params_id req))) (\<lambda>paymentInfo.
     ret \<lparr>status = 200,
          json = JObj [(''id'', js_prop (JObj paymentInfo) ''id''),
                       (''status'', js_prop (JObj paymentInfo) ''status''),
                       (''status_detail'', js_prop (JObj paymentInfo) ''status_detail''),
                       (''transaction_amount'', js_prop (JObj paymentInfo) ''transaction_amount''),
                       (''currency_id'', js_prop (JObj paymentInfo) ''currency_id''),
                       (''payment_method_id'', js_prop (JObj paymentInfo) ''payment_method_id''),
                       (''external_reference'', js_prop (JObj paymentInfo) ''external_reference''),
                       (''date_created'', js_prop (JObj paymentInfo) ''date_created'')]\<rparr>)"

definition get_payment :: "gateway \<Rightarrow> request \<Rightarrow> response \<times> effect list" where
  "get_payment gw req =
     (case get_payment_try gw req of
        (es, Inr res) \<Rightarrow> (res, es)
      | (es, Inl error) \<Rightarrow>
          (\<lparr>status = 500,
            json = JObj [(''error'', JStr ''Error getting payment information''),
                         (''details'', JStr (error_details error))]\<rparr>,
           es @ [Console_error ''Error getting payment info:'' error]))"

section \<open>The failure detail in the specification's words\<close>

text \<open>
  The specification words the \<^verbatim>\<open>details\<close> field of a 500 as: the underlying error's
  message when the failure carries a message, and \<open>Unknown error\<close> otherwise. This is
  that rule, to be compared with \<open>error_details\<close>, which is the source's. A thrown
  \<^verbatim>\<open>Error\<close> carries its message; any other thrown value carries one when it has a
  \<^verbatim>\<open>message\<close> property that is a string.
\<close>

fun spec_carried_message :: "thrown \<Rightarrow> string option" where
  "spec_carried_message (Error_instance message) = Some message"
| "spec_carried_message (Non_error v) =
     (case js_prop v ''message'' of JStr message \<Rightarrow> Some message | _ \<Rightarrow> None)"

definition spec_details :: "thrown \<Rightarrow> string" where
  "spec_details e =
     (case spec_carried_message e of Some message \<Rightarrow> message | None \<Rightarrow> ''Unknown error'')"

text \<open>A gateway both of whose operations reject with the given value.\<close>

definition gateway_rejecting :: "thrown \<Rightarrow> gateway" where
  "gateway_rejecting e = \<lparr>preference_create = (\<lambda>pd. Inl e), payment_get = (\<lambda>i. Inl e)\<rparr>"

section \<open>How the create-preference handler runs\<close>

lemmas comp_defs = bnd_def ret_def emit_def lift_def

text \<open>The mapping succeeds exactly when no element of the array is null.\<close>

lemma map_items_ok:
  "\<forall>it \<in> set its. \<not> nullish it \<Longrightarrow> \<exists>outs. map_items its = Inr outs"
  by (induction its) (auto simp: map_item_def js_get_def)

lemma map_items_Inr:
  "map_items its = Inr outs \<Longrightarrow>
     length outs = length its \<and>
     (\<forall>i < length its. \<not> nullish (its ! i) \<and> outs ! i =
        JObj [(''id'', js_prop (its ! i) ''id''),
              (''title'', js_prop (its ! i) ''title''),
              (''quantity'', js_prop (its ! i) ''quantity''),
              (''unit_price'', js_prop (its ! i) ''unit_price''),
              (''currency_id'', if truthy (js_prop (its ! i) ''currency_id'')
                                then js_prop (its ! i) ''currency_id'' else JStr ''PEN'')])"
proof (induction its arbitrary: outs)
  case Nil
  then show ?case by simp
next
  case (Cons it its)
  then show ?case
    by (auto simp: map_item_def js_get_def nth_Cons split: sum.splits if_splits nat.splits)
qed

text \<open>
  The five ways through the handler. No parsed body: the destructuring throws.
\<close>

lemma create_preference_no_body:
  assumes "nullish (req_body req)"
  shows "\<exists>e. create_preference ev gw now req =
           (\<lparr>status = 500,
             json = JObj [(''error'', JStr ''Error creating payment preference''),
                          (''details'', JStr (error_details e))]\<rparr>,
            [Console_error ''Error creating preference:'' e])"
  using assms
  by (simp add: create_preference_def create_preference_try_def comp_defs destructure_def)

text \<open>The guard \<^verbatim>\<open>!items || items.length === 0\<close> holds: the early return.\<close>

lemma create_preference_rejected:
  assumes "\<not> nullish (req_body req)"
    and "\<not> truthy (js_prop (req_body req) ''items'')
         \<or> js_prop (js_prop (req_body req) ''items'') ''length'' = JNum 0"
  shows "create_preference ev gw now req =
           (\<lparr>status = 400, json = JObj [(''error'', JStr ''Items are required'')]\<rparr>,
            [Console_log ''Datos recibidos para crear preferencia:'' (req_body req)])"
  using assms
  by (auto simp add: create_preference_def create_preference_try_def comp_defs destructure_def)

text \<open>The guard fails on something that is not an array: \<^verbatim>\<open>items.map\<close> throws.\<close>

lemma create_preference_not_array:
  assumes "\<not> nullish (req_body req)"
    and "truthy (js_prop (req_body req) ''items'')"
    and "js_prop (js_prop (req_body req) ''items'') ''length'' \<noteq> JNum 0"
    and "\<forall>its. js_prop (req_body req) ''items'' \<noteq> JArr its"
  shows "\<exists>e. create_preference ev gw now req =
           (\<lparr>status = 500,
             json = JObj [(''error'', JStr ''Error creating payment preference''),
                          (''details'', JStr (error_details e))]\<rparr>,
            [Console_log ''Datos recibidos para crear preferencia:'' (req_body req),
             Console_error ''Error creating preference:'' e])"
proof -
  have "items_map (js_prop (req_body req) ''items'') =
          Inl (Error_instance ''items.map is not a function'')"
    using assms(4) by (cases "js_prop (req_body req) ''items''") (simp_all add: items_map_def)
  then show ?thesis
    using assms(1-3)
    by (simp add: create_preference_def create_preference_try_def comp_defs destructure_def)
qed

text \<open>A non-empty array with a null element: the callback throws.\<close>

lemma create_preference_map_throws:
  assumes "js_prop (req_body req) ''items'' = JArr its" "its \<noteq> []" "map_items its = Inl e"
  shows "create_preference ev gw now req =
           (\<lparr>status = 500,
             json = JObj [(''error'', JStr ''Error creating payment preference''),
                          (''details'', JStr (error_details e))]\<rparr>,
            [Console_log ''Datos recibidos para crear preferencia:'' (req_body req),
             Console_error ''Error creating preference:'' e])"
proof -
  have nn: "\<not> nullish (req_body req)"
    using assms(1) by (cases "req_body req") auto
  show ?thesis
    using assms nn
    by (simp add: create_preference_def create_preference_try_def comp_defs destructure_def
        items_map_def)
qed

text \<open>
  A non-empty array that maps: the gateway is called once, and its answer decides
  between the 200 and the 500.
\<close>

lemma create_preference_run:
  assumes "js_prop (req_body req) ''items'' = JArr its" "its \<noteq> []" "map_items its = Inr outs"
  shows "create_preference ev gw now req =
     (let pd = preferenceData ev now req (JArr outs) (js_prop (req_body req) ''payer'');
          pre = [Console_log ''Datos recibidos para crear preferencia:'' (req_body req),
                 Console_log ''PreferenceData final:'' pd,
                 Preference_create pd]
      in case preference_create gw pd of
           Inr result \<Rightarrow>
             (\<lparr>status = 200,
               json = JObj [(''id'', js_prop (JObj result) ''id''),
                            (''init_point'', js_prop (JObj result) ''init_point''),
                            (''sandbox_init_point'',
                               js_prop (JObj result) ''sandbox_init_point'')]\<rparr>,
              pre)
         | Inl e \<Rightarrow>
             (\<lparr>status = 500,
               json = JObj [(''error'', JStr ''Error creating payment preference''),
                            (''details'', JStr (error_details e))]\<rparr>,
              pre @ [Console_error ''Error creating preference:'' e]))"
proof -
  have nn: "\<not> nullish (req_body req)"
    using assms(1) by (cases "req_body req") auto
  show ?thesis
    using assms nn
    by (simp add: create_preference_def create_preference_try_def call_preference_create_def
        comp_defs destructure_def items_map_def Let_def
      split: sum.splits)
qed

text \<open>Every request takes exactly one of the five ways.\<close>

lemma create_preference_cases:
  obtains (no_body) "nullish (req_body req)"
  | (rejected) "\<not> nullish (req_body req)"
      "\<not> truthy (js_prop (req_body req) ''items'')
         \<or> js_prop (js_prop (req_body req) ''items'') ''length'' = JNum 0"
  | (not_array) "\<not> nullish (req_body req)" "truthy (js_prop (req_body req) ''items'')"
      "js_prop (js_prop (req_body req) ''items'') ''length'' \<noteq> JNum 0"
      "\<forall>its. js_prop (req_body req) ''items'' \<noteq> JArr its"
  | (map_throws) its e where "js_prop (req_body req) ''items'' = JArr its" "its \<noteq> []"
      "map_items its = Inl e"
  | (run) its outs where "js_prop (req_body req) ''items'' = JArr its" "its \<noteq> []"
      "map_items its = Inr outs"
proof (cases "nullish (req_body req)")
  case True
  then show ?thesis by (rule no_body)
next
  case nn: False
  show ?thesis
  proof (cases "\<not> truthy (js_prop (req_body req) ''items'')
         \<or> js_prop (js_prop (req_body req) ''items'') ''length'' = JNum 0")
    case True
    with nn show ?thesis by (rule rejected)
  next
    case g: False
    show ?thesis
    proof (cases "\<exists>its. js_prop (req_body req) ''items'' = JArr its")
      case False
      with nn g show ?thesis by (intro not_array) auto
    next
      case True
      then obtain its where its: "js_prop (req_body req) ''items'' = JArr its" by blast
      with g have ne: "its \<noteq> []" by auto
      show ?thesis
      proof (cases "map_items its")
        case (Inl e)
        with its ne show ?thesis by (rule map_throws)
      next
        case (Inr outs)
        with its ne show ?thesis by (rule run)
      qed
    qed
  qed
qed

text \<open>What the gateway is sent, whenever it is called.\<close>

lemma create_preference_sent:
  assumes "Preference_create pd \<in> set (snd (create_preference ev gw now req))"
  shows "\<exists>its outs. js_prop (req_body req) ''items'' = JArr its \<and> its \<noteq> [] \<and>
           map_items its = Inr outs \<and>
           pd = preferenceData ev now req (JArr outs) (js_prop (req_body req) ''payer'')"
proof (cases req rule: create_preference_cases)
  case no_body
  from create_preference_no_body [OF this, of ev gw now] assms show ?thesis by auto
next
  case rejected
  from create_preference_rejected [OF this, of ev gw now] assms show ?thesis by auto
next
  case not_array
  from create_preference_not_array [OF this, of ev gw now] assms show ?thesis by auto
next
  case (map_throws its e)
  from create_preference_map_throws [OF this, of ev gw now] assms show ?thesis by auto
next
  case (run its outs)
  from create_preference_run [OF this, of ev gw now] assms
  have "pd = preferenceData ev now req (JArr outs) (js_prop (req_body req) ''payer'')"
    by (auto simp: Let_def split: sum.splits)
  with run show ?thesis by blast
qed

text \<open>A 200 comes only from the last way, with the gateway's call resolved.\<close>

lemma create_preference_ok:
  assumes "status (fst (create_preference ev gw now req)) = 200"
  shows "\<exists>its outs result. js_prop (req_body req) ''items'' = JArr its \<and> its \<noteq> [] \<and>
           map_items its = Inr outs \<and>
           preference_create gw
             (preferenceData ev now req (JArr outs) (js_prop (req_body req) ''payer''))
             = Inr result"
proof (cases req rule: create_preference_cases)
  case no_body
  from create_preference_no_body [OF this, of ev gw now] assms show ?thesis by auto
next
  case rejected
  from create_preference_rejected [OF this, of ev gw now] assms show ?thesis by auto
next
  case not_array
  from create_preference_not_array [OF this, of ev gw now] assms show ?thesis by auto
next
  case (map_throws its e)
  from create_preference_map_throws [OF this, of ev gw now] assms show ?thesis by auto
next
  case (run its outs)
  from create_preference_run [OF this, of ev gw now] assms
  have "\<exists>result. preference_create gw
          (preferenceData ev now req (JArr outs) (js_prop (req_body req) ''payer''))
          = Inr result"
    by (auto simp: Let_def split: sum.splits)
  with run show ?thesis by blast
qed

text \<open>
  The digits printed for a timestamp are its decimal representation: reading them back
  gives the number.
\<close>

lemma digit_all: "\<forall>d \<in> set [0..<10]. of_char (''0123456789'' ! d) = (48::nat) + d" 
  by code_simp

lemma digit_value: "d < 10 \<Longrightarrow> of_char (''0123456789'' ! d) = 48 + d" for d :: nat
  using digit_all by simp

lemma nat_digits_value:
  "foldl (\<lambda>a c. 10 * a + (of_char c - 48)) 0 (nat_digits n) = n"
proof (induction n rule: nat_digits.induct)
  case (1 n)
  show ?case
  proof (cases "n < 10")
    case True
    then show ?thesis
      by (subst nat_digits.simps) (simp add: digit_value)
  next
    case False
    have "foldl (\<lambda>a c. 10 * a + (of_char c - 48)) 0 (nat_digits n)
            = 10 * (n div 10) + (of_char (''0123456789'' ! (n mod 10)) - 48)"
      using False 1 by (subst nat_digits.simps) simp
    also have "of_char (''0123456789'' ! (n mod 10)) - 48 = n mod 10"
      by (simp add: digit_value)
    finally show ?thesis by simp
  qed
qed

section \<open>How the webhook and payment handlers run\<close>

text \<open>The four ways through the webhook handler. No parsed body: the destructuring throws.\<close>

lemma webhook_no_body:
  assumes "nullish (req_body req)"
  shows "\<exists>e. webhook gw req =
           (\<lparr>status = 500, json = JObj [(''error'', JStr ''Webhook processing failed'')]\<rparr>,
            [Console_error ''Webhook error:'' e])"
  using assms by (simp add: webhook_def webhook_try_def comp_defs destructure_def)

text \<open>An event of another type is acknowledged at once.\<close>

lemma webhook_other_type:
  assumes "\<not> nullish (req_body req)" "js_prop (req_body req) ''type'' \<noteq> JStr ''payment''"
  shows "webhook gw req =
           (\<lparr>status = 200, json = JObj [(''received'', JBool True)]\<rparr>,
            [Console_log ''Webhook received:''
               (JObj [(''type'', js_prop (req_body req) ''type''),
                      (''data'', js_prop (req_body req) ''data'')])])"
  using assms by (simp add: webhook_def webhook_try_def comp_defs destructure_def)

text \<open>A payment event without \<^verbatim>\<open>data\<close>: reading \<^verbatim>\<open>data.id\<close> throws.\<close>

lemma webhook_no_data:
  assumes "js_prop (req_body req) ''type'' = JStr ''payment''"
    and "nullish (js_prop (req_body req) ''data'')"
  shows "\<exists>e. webhook gw req =
           (\<lparr>status = 500, json = JObj [(''error'', JStr ''Webhook processing failed'')]\<rparr>,
            [Console_log ''Webhook received:''
               (JObj [(''type'', js_prop (req_body req) ''type''),
                      (''data'', js_prop (req_body req) ''data'')]),
             Console_error ''Webhook error:'' e])"
proof -
  have nn: "\<not> nullish (req_body req)"
    using assms(1) by (cases "req_body req") auto
  show ?thesis
    using assms nn
    by (simp add: webhook_def webhook_try_def comp_defs destructure_def js_get_def)
qed

text \<open>A payment event with \<^verbatim>\<open>data\<close>: the gateway is asked, and its answer decides.\<close>

lemma webhook_lookup:
  assumes "js_prop (req_body req) ''type'' = JStr ''payment''"
    and "\<not> nullish (js_prop (req_body req) ''data'')"
  shows "webhook gw req =
     (let paymentId = js_prop (js_prop (req_body req) ''data'') ''id'';
          pre = [Console_log ''Webhook received:''
                   (JObj [(''type'', js_prop (req_body req) ''type''),
                          (''data'', js_prop (req_body req) ''data'')]),
                 Payment_get paymentId]
      in case payment_get gw paymentId of
           Inl e \<Rightarrow>
             (\<lparr>status = 500, json = JObj [(''error'', JStr ''Webhook processing failed'')]\<rparr>,
              pre @ [Console_error ''Webhook error:'' e])
         | Inr paymentInfo \<Rightarrow>
             (\<lparr>status = 200, json = JObj [(''received'', JBool True)]\<rparr>,
              pre @ [Console_log ''Payment info:''
                       (JObj [(''id'', js_prop (JObj paymentInfo) ''id''),
                              (''status'', js_prop (JObj paymentInfo) ''status''),
                              (''external_reference'',
                                 js_prop (JObj paymentInfo) ''external_reference''),
                              (''transaction_amount'',
                                 js_prop (JObj paymentInfo) ''transaction_amount'')])]
                  @ fst (status_switch (js_prop (JObj paymentInfo) ''status'') paymentId)))"
proof -
  have nn: "\<not> nullish (req_body req)"
    using assms(1) by (cases "req_body req") auto
  show ?thesis
    using assms nn
    by (simp add: webhook_def webhook_try_def call_payment_get_def comp_defs destructure_def
          js_get_def status_switch_def Let_def
        split: sum.splits)
qed

text \<open>The payment handler asks the gateway at once.\<close>

lemma get_payment_run:
  "get_payment gw req =
     (case payment_get gw (JStr (req_params_id req)) of
        Inl e \<Rightarrow>
          (\<lparr>status = 500,
            json = JObj [(''error'', JStr ''Error getting payment information''),
                         (''details'', JStr (error_details e))]\<rparr>,
           [Payment_get (JStr (req_params_id req)),
            Console_error ''Error getting payment info:'' e])
      | Inr paymentInfo \<Rightarrow>
          (\<lparr>status = 200,
            json = JObj [(''id'', js_prop (JObj paymentInfo) ''id''),
                       (''status'', js_prop (JObj paymentInfo) ''status''),
                       (''status_detail'', js_prop (JObj paymentInfo) ''status_detail''),
                       (''transaction_amount'', js_prop (JObj paymentInfo) ''transaction_amount''),
                       (''currency_id'', js_prop (JObj paymentInfo) ''currency_id''),
                       (''payment_method_id'', js_prop (JObj paymentInfo) ''payment_method_id''),
                       (''external_reference'', js_prop (JObj paymentInfo) ''external_reference''),
                       (''date_created'', js_prop (JObj paymentInfo) ''date_created'')]\<rparr>,
           [Payment_get (JStr (req_params_id req))]))"
  by (simp add: get_payment_def get_payment_try_def call_payment_get_def comp_defs
      split: sum.splits)

section \<open>Claims about POST /api/create-preference\<close>




text \<open>
  C2. For every request whose \<open>items\<close> is a non-empty array of line items (no element
  null), the handler calls the gateway's session creation with exactly one session
  request, and when that call succeeds the answer is 200 with a body of \<open>id\<close>,
  \<open>init_point\<close> and \<open>sandbox_init_point\<close>, each read from the gateway's response.
\<close>

theorem create_preference_success:
  assumes "js_prop (req_body req) ''items'' = JArr its"
    and "its \<noteq> []"
    and "\<forall>it \<in> set its. \<not> nullish it"
  shows "\<exists>pd. (\<forall>pd'. Preference_create pd' \<in> set (snd (create_preference ev gw now req))
                    \<longleftrightarrow> pd' = pd) \<and>
           (\<forall>result. preference_create gw pd = Inr result \<longrightarrow>
              fst (create_preference ev gw now req) =
                \<lparr>status = 200,
                 json = JObj [(''id'', js_prop (JObj result) ''id''),
                              (''init_point'', js_prop (JObj result) ''init_point''),
                              (''sandbox_init_point'',
                                 js_prop (JObj result) ''sandbox_init_point'')]\<rparr>)"
proof -
  from map_items_ok [OF assms(3)] obtain outs where outs: "map_items its = Inr outs" ..
  let ?pd = "preferenceData ev now req (JArr outs) (js_prop (req_body req) ''payer'')"
  note run = create_preference_run [OF assms(1,2) outs, of ev gw now]
  have "Preference_create pd' \<in> set (snd (create_preference ev gw now req)) \<longleftrightarrow> pd' = ?pd"
    for pd'
    unfolding run by (simp add: Let_def split: sum.splits)
  moreover have "fst (create_preference ev gw now req) =
                \<lparr>status = 200,
                 json = JObj [(''id'', js_prop (JObj result) ''id''),
                              (''init_point'', js_prop (JObj result) ''init_point''),
                              (''sandbox_init_point'',
                                 js_prop (JObj result) ''sandbox_init_point'')]\<rparr>"
    if "preference_create gw ?pd = Inr result" for result
    unfolding run using that by (simp add: Let_def)
  ultimately show ?thesis by blast
qed

theorem create_preference_success_witness:
  "fst (create_preference \<lparr>FRONTEND_URL = Some ''http://localhost:8080''\<rparr>
         \<lparr>preference_create =
            (\<lambda>pd. Inr [(''id'', JStr ''pref-1''),
                        (''init_point'', JStr ''https://mp.example/init''),
                        (''sandbox_init_point'', JStr ''https://mp.example/sandbox''),
                        (''collector_id'', JNum 7)]),
          payment_get = (\<lambda>i. Inr [])\<rparr>
         1700000000000
         \<lparr>req_body = JObj [(''items'', JArr [JObj [(''id'', JStr ''sku-1''),
                                                 (''title'', JStr ''Mouse''),
                                                 (''quantity'', JNum 2),
                                                 (''unit_price'', JNum 50),
                                                 (''currency_id'', JStr ''PEN'')]])],
          req_protocol = ''https'', req_host = Some ''api.shop.pe'', req_params_id = ''''\<rparr>)
     = \<lparr>status = 200,
        json = JObj [(''id'', JStr ''pref-1''),
                     (''init_point'', JStr ''https://mp.example/init''),
                     (''sandbox_init_point'', JStr ''https://mp.example/sandbox'')]\<rparr>"
proof -
  let ?ev = "\<lparr>FRONTEND_URL = Some ''http://localhost:8080''\<rparr>"
  let ?result = "[(''id'', JStr ''pref-1''),
                        (''init_point'', JStr ''https://mp.example/init''),
                        (''sandbox_init_point'', JStr ''https://mp.example/sandbox''),
                        (''collector_id'', JNum 7)]"
  let ?gw = "\<lparr>preference_create = (\<lambda>pd. Inr ?result), payment_get = (\<lambda>i. Inr [])\<rparr>"
  let ?its = "[JObj [(''id'', JStr ''sku-1''), (''title'', JStr ''Mouse''),
                     (''quantity'', JNum 2), (''unit_price'', JNum 50),
                     (''currency_id'', JStr ''PEN'')]]"
  let ?req = "\<lparr>req_body = JObj [(''items'', JArr ?its)],
          req_protocol = ''https'', req_host = Some ''api.shop.pe'', req_params_id = ''''\<rparr>"
  have h: "js_prop (req_body ?req) ''items'' = JArr ?its" "?its \<noteq> []"
    "\<forall>it \<in> set ?its. \<not> nullish it"
    by simp_all
  from create_preference_success [OF h, of ?ev ?gw 1700000000000]
  obtain pd where "\<forall>result. preference_create ?gw pd = Inr result \<longrightarrow>
              fst (create_preference ?ev ?gw 1700000000000 ?req) =
                \<lparr>status = 200,
                 json = JObj [(''id'', js_prop (JObj result) ''id''),
                              (''init_point'', js_prop (JObj result) ''init_point''),
                              (''sandbox_init_point'',
                                 js_prop (JObj result) ''sandbox_init_point'')]\<rparr>"
    by blast
  from this [rule_format, of ?result] show ?thesis by simp
qed

text \<open>
  C3. For every line item of a request, in the session request sent to the gateway: an
  item whose \<open>currency_id\<close> is the empty string or absent carries \<open>'PEN'\<close>, and an
  item whose \<open>currency_id\<close> is a non-empty string carries that string unchanged.
\<close>

theorem create_preference_currency_fallback:
  assumes "js_prop (req_body req) ''items'' = JArr its"
    and "Preference_create pd \<in> set (snd (create_preference ev gw now req))"
  shows "\<exists>outs. js_prop pd ''items'' = JArr outs \<and> length outs = length its \<and>
           (\<forall>i < length its.
              (js_prop (its ! i) ''currency_id'' = JStr [] \<or>
               js_prop (its ! i) ''currency_id'' = JUndefined \<longrightarrow>
                 js_prop (outs ! i) ''currency_id'' = JStr ''PEN'') \<and>
              (\<forall>c. c \<noteq> [] \<and> js_prop (its ! i) ''currency_id'' = JStr c \<longrightarrow>
                 js_prop (outs ! i) ''currency_id'' = JStr c))"
proof -
  from create_preference_sent [OF assms(2)] assms(1)
  obtain outs where outs: "map_items its = Inr outs"
    and pd: "pd = preferenceData ev now req (JArr outs) (js_prop (req_body req) ''payer'')"
    by auto
  have "js_prop pd ''items'' = JArr outs"
    by (simp add: pd preferenceData_def)
  moreover from map_items_Inr [OF outs] have "length outs = length its" by simp
  moreover have "(js_prop (its ! i) ''currency_id'' = JStr [] \<or>
               js_prop (its ! i) ''currency_id'' = JUndefined \<longrightarrow>
                 js_prop (outs ! i) ''currency_id'' = JStr ''PEN'') \<and>
              (\<forall>c. c \<noteq> [] \<and> js_prop (its ! i) ''currency_id'' = JStr c \<longrightarrow>
                 js_prop (outs ! i) ''currency_id'' = JStr c)"
    if "i < length its" for i
    using map_items_Inr [OF outs] that by auto
  ultimately show ?thesis by blast
qed

theorem create_preference_currency_fallback_witness:
  "\<exists>pd outs.
     Preference_create pd \<in> set (snd (create_preference
         \<lparr>FRONTEND_URL = Some ''http://localhost:8080''\<rparr>
         \<lparr>preference_create = (\<lambda>pd. Inr [(''id'', JStr ''pref-1'')]),
          payment_get = (\<lambda>i. Inr [])\<rparr>
         1700000000000
         \<lparr>req_body = JObj [(''items'',
              JArr [JObj [(''id'', JStr ''sku-1''), (''currency_id'', JStr '''')],
                    JObj [(''id'', JStr ''sku-2'')],
                    JObj [(''id'', JStr ''sku-3''), (''currency_id'', JStr ''USD'')]])],
          req_protocol = ''https'', req_host = Some ''api.shop.pe'', req_params_id = ''''\<rparr>)) \<and>
     js_prop pd ''items'' = JArr outs \<and>
     js_prop (outs ! 0) ''currency_id'' = JStr ''PEN'' \<and>
     js_prop (outs ! 1) ''currency_id'' = JStr ''PEN'' \<and>
     js_prop (outs ! 2) ''currency_id'' = JStr ''USD''"
proof -
  let ?ev = "\<lparr>FRONTEND_URL = Some ''http://localhost:8080''\<rparr>"
  let ?gw = "\<lparr>preference_create = (\<lambda>pd. Inr [(''id'', JStr ''pref-1'')]),
          payment_get = (\<lambda>i. Inr [])\<rparr>"
  let ?its = "[JObj [(''id'', JStr ''sku-1''), (''currency_id'', JStr '''')],
                    JObj [(''id'', JStr ''sku-2'')],
                    JObj [(''id'', JStr ''sku-3''), (''currency_id'', JStr ''USD'')]]"
  let ?req = "\<lparr>req_body = JObj [(''items'', JArr ?its)],
          req_protocol = ''https'', req_host = Some ''api.shop.pe'', req_params_id = ''''\<rparr>"
  have h1: "js_prop (req_body ?req) ''items'' = JArr ?its" by simp
  have "\<forall>it \<in> set ?its. \<not> nullish it" by simp
  from map_items_ok [OF this] obtain outs' where m: "map_items ?its = Inr outs'" ..
  from create_preference_run [OF h1 _ m, of ?ev ?gw 1700000000000]
  obtain pd where h2: "Preference_create pd \<in> set (snd (create_preference ?ev ?gw 1700000000000 ?req))"
    by (simp add: Let_def)
  from create_preference_currency_fallback [OF h1 h2]
  obtain outs where o: "js_prop pd ''items'' = JArr outs"
    and c: "\<forall>i < length ?its.
              (js_prop (?its ! i) ''currency_id'' = JStr [] \<or>
               js_prop (?its ! i) ''currency_id'' = JUndefined \<longrightarrow>
                 js_prop (outs ! i) ''currency_id'' = JStr ''PEN'') \<and>
              (\<forall>c. c \<noteq> [] \<and> js_prop (?its ! i) ''currency_id'' = JStr c \<longrightarrow>
                 js_prop (outs ! i) ''currency_id'' = JStr c)"
    by blast
  from c [rule_format, of 0] have "js_prop (outs ! 0) ''currency_id'' = JStr ''PEN''" by simp
  moreover from c [rule_format, of 1] have "js_prop (outs ! 1) ''currency_id'' = JStr ''PEN''"
    by simp
  moreover from c [rule_format, of 2] have "js_prop (outs ! 2) ''currency_id'' = JStr ''USD''"
    by simp
  ultimately show ?thesis using h2 o by blast
qed

text \<open>
  C4. For every request answered with 200, the one session request sent to the gateway
  has no excluded payment methods or types and 12 installments; the three redirect
  URLs are the frontend origin of the environment followed by \<open>/success\<close>,
  \<open>/failure\<close>, \<open>/pending\<close>; \<open>auto_return\<close> is \<open>'approved'\<close>; the statement
  descriptor is \<open>'MI_ECOMMERCE'\<close>; the notification URL is the request's protocol,
  \<open>://\<close>, its host and \<open>/api/webhook\<close>; the external reference is \<open>order_\<close>
  followed by the decimal digits of the timestamp. (The origin and the host go through
  a template literal: \<open>template (Some s) = s\<close>, and a missing one prints as
  \<open>undefined\<close>.)
\<close>

theorem create_preference_session_request:
  assumes "status (fst (create_preference ev gw now req)) = 200"
  shows "\<exists>pd. (\<forall>pd'. Preference_create pd' \<in> set (snd (create_preference ev gw now req))
                    \<longleftrightarrow> pd' = pd) \<and>
           js_prop pd ''payment_methods'' =
             JObj [(''excluded_payment_methods'', JArr []),
                   (''excluded_payment_types'', JArr []),
                   (''installments'', JNum 12)] \<and>
           js_prop pd ''back_urls'' =
             JObj [(''success'', JStr (template (FRONTEND_URL ev) @ ''/success'')),
                   (''failure'', JStr (template (FRONTEND_URL ev) @ ''/failure'')),
                   (''pending'', JStr (template (FRONTEND_URL ev) @ ''/pending''))] \<and>
           js_prop pd ''auto_return'' = JStr ''approved'' \<and>
           js_prop pd ''statement_descriptor'' = JStr ''MI_ECOMMERCE'' \<and>
           js_prop pd ''notification_url'' =
             JStr (req_protocol req @ ''://'' @ template (req_host req) @ ''/api/webhook'') \<and>
           js_prop pd ''external_reference'' = JStr (''order_'' @ number_string now)"
proof -
  from create_preference_ok [OF assms]
  obtain its outs where its: "js_prop (req_body req) ''items'' = JArr its" "its \<noteq> []"
    and outs: "map_items its = Inr outs"
    by blast
  let ?pd = "preferenceData ev now req (JArr outs) (js_prop (req_body req) ''payer'')"
  have "Preference_create pd' \<in> set (snd (create_preference ev gw now req)) \<longleftrightarrow> pd' = ?pd"
    for pd'
    unfolding create_preference_run [OF its outs, of ev gw now]
    by (simp add: Let_def split: sum.splits)
  moreover have "js_prop ?pd ''payment_methods'' =
             JObj [(''excluded_payment_methods'', JArr []),
                   (''excluded_payment_types'', JArr []),
                   (''installments'', JNum 12)]"
    by (simp add: preferenceData_def)
  moreover have "js_prop ?pd ''back_urls'' =
             JObj [(''success'', JStr (template (FRONTEND_URL ev) @ ''/success'')),
                   (''failure'', JStr (template (FRONTEND_URL ev) @ ''/failure'')),
                   (''pending'', JStr (template (FRONTEND_URL ev) @ ''/pending''))]"
    by (simp add: preferenceData_def)
  moreover have "js_prop ?pd ''auto_return'' = JStr ''approved''"
    by (simp add: preferenceData_def)
  moreover have "js_prop ?pd ''statement_descriptor'' = JStr ''MI_ECOMMERCE''"
    by (simp add: preferenceData_def)
  moreover have "js_prop ?pd ''notification_url'' =
             JStr (req_protocol req @ ''://'' @ template (req_host req) @ ''/api/webhook'')"
    by (simp add: preferenceData_def)
  moreover have "js_prop ?pd ''external_reference'' = JStr (''order_'' @ number_string now)"
    by (simp add: preferenceData_def)
  ultimately show ?thesis by blast
qed

theorem create_preference_session_request_witness:
  "\<exists>pd.
     Preference_create pd \<in> set (snd (create_preference
         \<lparr>FRONTEND_URL = Some ''https://shop.pe''\<rparr>
         \<lparr>preference_create = (\<lambda>pd. Inr [(''id'', JStr ''pref-1'')]),
          payment_get = (\<lambda>i. Inr [])\<rparr>
         1700000000000
         \<lparr>req_body = JObj [(''items'', JArr [JObj [(''id'', JStr ''sku-1'')]])],
          req_protocol = ''https'', req_host = Some ''api.shop.pe'', req_params_id = ''''\<rparr>)) \<and>
     js_prop (js_prop pd ''payment_methods'') ''excluded_payment_methods'' = JArr [] \<and>
     js_prop (js_prop pd ''payment_methods'') ''excluded_payment_types'' = JArr [] \<and>
     js_prop (js_prop pd ''payment_methods'') ''installments'' = JNum 12 \<and>
     js_prop (js_prop pd ''back_urls'') ''success'' = JStr ''https://shop.pe/success'' \<and>
     js_prop (js_prop pd ''back_urls'') ''failure'' = JStr ''https://shop.pe/failure'' \<and>
     js_prop (js_prop pd ''back_urls'') ''pending'' = JStr ''https://shop.pe/pending'' \<and>
     js_prop pd ''auto_return'' = JStr ''approved'' \<and>
     js_prop pd ''statement_descriptor'' = JStr ''MI_ECOMMERCE'' \<and>
     js_prop pd ''notification_url'' = JStr ''https://api.shop.pe/api/webhook'' \<and>
     js_prop pd ''external_reference'' = JStr ''order_1700000000000''"
proof -
  let ?ev = "\<lparr>FRONTEND_URL = Some ''https://shop.pe''\<rparr>"
  let ?gw = "\<lparr>preference_create = (\<lambda>pd. Inr [(''id'', JStr ''pref-1'')]),
          payment_get = (\<lambda>i. Inr [])\<rparr>"
  let ?its = "[JObj [(''id'', JStr ''sku-1'')]]"
  let ?req = "\<lparr>req_body = JObj [(''items'', JArr ?its)],
          req_protocol = ''https'', req_host = Some ''api.shop.pe'', req_params_id = ''''\<rparr>"
  have h1: "js_prop (req_body ?req) ''items'' = JArr ?its" by simp
  have "\<forall>it \<in> set ?its. \<not> nullish it" by simp
  from map_items_ok [OF this] obtain outs where m: "map_items ?its = Inr outs" ..
  from create_preference_run [OF h1 _ m, of ?ev ?gw 1700000000000]
  have h: "status (fst (create_preference ?ev ?gw 1700000000000 ?req)) = 200"
    by (simp add: Let_def)
  have n: "number_string 1700000000000 = ''1700000000000''"
    by (simp add: number_string_def nat_digits.simps)
  from create_preference_session_request [OF h] show ?thesis
    by (auto simp: n)
qed

text \<open>
  C10. For every line item of a request, the item sent to the gateway is an object of
  exactly the five properties \<open>id\<close>, \<open>title\<close>, \<open>quantity\<close>, \<open>unit_price\<close> and
  \<open>currency_id\<close>, the first four with the values read from the client's item: only
  \<open>currency_id\<close> may differ, and any other property of the client's item is gone.
\<close>

theorem create_preference_item_fields:
  assumes "js_prop (req_body req) ''items'' = JArr its"
    and "Preference_create pd \<in> set (snd (create_preference ev gw now req))"
  shows "\<exists>outs. js_prop pd ''items'' = JArr outs \<and> length outs = length its \<and>
           (\<forall>i < length its. \<exists>currency.
              outs ! i = JObj [(''id'', js_prop (its ! i) ''id''),
                               (''title'', js_prop (its ! i) ''title''),
                               (''quantity'', js_prop (its ! i) ''quantity''),
                               (''unit_price'', js_prop (its ! i) ''unit_price''),
                               (''currency_id'', currency)])"
proof -
  from create_preference_sent [OF assms(2)] assms(1)
  obtain outs where outs: "map_items its = Inr outs"
    and pd: "pd = preferenceData ev now req (JArr outs) (js_prop (req_body req) ''payer'')"
    by auto
  have "js_prop pd ''items'' = JArr outs"
    by (simp add: pd preferenceData_def)
  moreover from map_items_Inr [OF outs] have "length outs = length its" by simp
  moreover have "\<exists>currency.
              outs ! i = JObj [(''id'', js_prop (its ! i) ''id''),
                               (''title'', js_prop (its ! i) ''title''),
                               (''quantity'', js_prop (its ! i) ''quantity''),
                               (''unit_price'', js_prop (its ! i) ''unit_price''),
                               (''currency_id'', currency)]"
    if "i < length its" for i
    using map_items_Inr [OF outs] that by simp
  ultimately show ?thesis by blast
qed

theorem create_preference_item_fields_witness:
  "\<exists>pd currency.
     Preference_create pd \<in> set (snd (create_preference
         \<lparr>FRONTEND_URL = Some ''http://localhost:8080''\<rparr>
         \<lparr>preference_create = (\<lambda>pd. Inr [(''id'', JStr ''pref-1'')]),
          payment_get = (\<lambda>i. Inr [])\<rparr>
         1700000000000
         \<lparr>req_body = JObj [(''items'',
              JArr [JObj [(''id'', JStr ''sku-1''), (''title'', JStr ''Teclado''),
                          (''quantity'', JNum 3), (''unit_price'', JNum (1999 / 100)),
                          (''color'', JStr ''negro''), (''picture_url'', JStr ''http://x/y.png'')]])],
          req_protocol = ''https'', req_host = Some ''api.shop.pe'', req_params_id = ''''\<rparr>)) \<and>
     js_prop pd ''items'' =
       JArr [JObj [(''id'', JStr ''sku-1''), (''title'', JStr ''Teclado''),
                   (''quantity'', JNum 3), (''unit_price'', JNum (1999 / 100)),
                   (''currency_id'', currency)]]"
proof -
  let ?ev = "\<lparr>FRONTEND_URL = Some ''http://localhost:8080''\<rparr>"
  let ?gw = "\<lparr>preference_create = (\<lambda>pd. Inr [(''id'', JStr ''pref-1'')]),
          payment_get = (\<lambda>i. Inr [])\<rparr>"
  let ?its = "[JObj [(''id'', JStr ''sku-1''), (''title'', JStr ''Teclado''),
                          (''quantity'', JNum 3), (''unit_price'', JNum (1999 / 100)),
                          (''color'', JStr ''negro''), (''picture_url'', JStr ''http://x/y.png'')]]"
  let ?req = "\<lparr>req_body = JObj [(''items'', JArr ?its)],
          req_protocol = ''https'', req_host = Some ''api.shop.pe'', req_params_id = ''''\<rparr>"
  have h1: "js_prop (req_body ?req) ''items'' = JArr ?its" by simp
  have "\<forall>it \<in> set ?its. \<not> nullish it" by simp
  from map_items_ok [OF this] obtain outs' where m: "map_items ?its = Inr outs'" ..
  from create_preference_run [OF h1 _ m, of ?ev ?gw 1700000000000]
  obtain pd where h2: "Preference_create pd \<in> set (snd (create_preference ?ev ?gw 1700000000000 ?req))"
    by (simp add: Let_def)
  from create_preference_item_fields [OF h1 h2]
  obtain outs where o: "js_prop pd ''items'' = JArr outs" and l: "length outs = length ?its"
    and c: "\<forall>i < length ?its. \<exists>currency.
              outs ! i = JObj [(''id'', js_prop (?its ! i) ''id''),
                               (''title'', js_prop (?its ! i) ''title''),
                               (''quantity'', js_prop (?its ! i) ''quantity''),
                               (''unit_price'', js_prop (?its ! i) ''unit_price''),
                               (''currency_id'', currency)]"
    by blast
  from c [rule_format, of 0] obtain currency where
    "outs ! 0 = JObj [(''id'', JStr ''sku-1''), (''title'', JStr ''Teclado''),
                   (''quantity'', JNum 3), (''unit_price'', JNum (1999 / 100)),
                   (''currency_id'', currency)]"
    by auto
  moreover from l obtain x where "outs = [x]" by (cases outs) auto
  ultimately have "outs = [JObj [(''id'', JStr ''sku-1''), (''title'', JStr ''Teclado''),
                   (''quantity'', JNum 3), (''unit_price'', JNum (1999 / 100)),
                   (''currency_id'', currency)]]"
    by simp
  with h2 o show ?thesis by blast
qed

section \<open>Claims about POST /api/webhook\<close>

text \<open>
  C5. For every webhook request of type \<open>'payment'\<close> whose \<open>data\<close> is present and
  whose gateway lookup succeeds, the answer is 200 with the body \<open>{received: true}\<close>,
  whatever the payment's status; the status only chooses the last console line
  (one for \<open>'approved'\<close>, \<open>'pending'\<close> and \<open>'rejected'\<close> each, none otherwise).
\<close>

theorem webhook_payment_acknowledged:
  assumes "js_prop (req_body req) ''type'' = JStr ''payment''"
    and "\<not> nullish (js_prop (req_body req) ''data'')"
    and "payment_get gw (js_prop (js_prop (req_body req) ''data'') ''id'') = Inr paymentInfo"
  shows "fst (webhook gw req) = \<lparr>status = 200, json = JObj [(''received'', JBool True)]\<rparr> \<and>
         snd (webhook gw req) =
           [Console_log ''Webhook received:''
              (JObj [(''type'', js_prop (req_body req) ''type''),
                     (''data'', js_prop (req_body req) ''data'')]),
            Payment_get (js_prop (js_prop (req_body req) ''data'') ''id''),
            Console_log ''Payment info:''
              (JObj [(''id'', js_prop (JObj paymentInfo) ''id''),
                     (''status'', js_prop (JObj paymentInfo) ''status''),
                     (''external_reference'', js_prop (JObj paymentInfo) ''external_reference''),
                     (''transaction_amount'', js_prop (JObj paymentInfo) ''transaction_amount'')])]
           @ (if js_prop (JObj paymentInfo) ''status'' = JStr ''approved''
              then [Console_log ''Pago aprobado:'' (js_prop (js_prop (req_body req) ''data'') ''id'')]
              else if js_prop (JObj paymentInfo) ''status'' = JStr ''pending''
              then [Console_log ''Pago pendiente:'' (js_prop (js_prop (req_body req) ''data'') ''id'')]
              else if js_prop (JObj paymentInfo) ''status'' = JStr ''rejected''
              then [Console_log ''Pago rechazado:'' (js_prop (js_prop (req_body req) ''data'') ''id'')]
              else [])"
  unfolding webhook_lookup [OF assms(1,2), of gw]
  using assms(3) by (simp add: Let_def status_switch_def comp_defs)

theorem webhook_payment_acknowledged_witness:
  "fst (webhook \<lparr>preference_create = (\<lambda>pd. Inr []),
                 payment_get = (\<lambda>i. Inr [(''id'', JNum 123), (''status'', JStr ''approved'')])\<rparr>
         \<lparr>req_body = JObj [(''type'', JStr ''payment''), (''data'', JObj [(''id'', JStr ''123'')])],
          req_protocol = ''https'', req_host = Some ''api.shop.pe'', req_params_id = ''''\<rparr>)
     = \<lparr>status = 200, json = JObj [(''received'', JBool True)]\<rparr>
   \<and> fst (webhook \<lparr>preference_create = (\<lambda>pd. Inr []),
                 payment_get = (\<lambda>i. Inr [(''id'', JNum 123), (''status'', JStr ''pending'')])\<rparr>
         \<lparr>req_body = JObj [(''type'', JStr ''payment''), (''data'', JObj [(''id'', JStr ''123'')])],
          req_protocol = ''https'', req_host = Some ''api.shop.pe'', req_params_id = ''''\<rparr>)
     = \<lparr>status = 200, json = JObj [(''received'', JBool True)]\<rparr>
   \<and> fst (webhook \<lparr>preference_create = (\<lambda>pd. Inr []),
                 payment_get = (\<lambda>i. Inr [(''id'', JNum 123), (''status'', JStr ''rejected'')])\<rparr>
         \<lparr>req_body = JObj [(''type'', JStr ''payment''), (''data'', JObj [(''id'', JStr ''123'')])],
          req_protocol = ''https'', req_host = Some ''api.shop.pe'', req_params_id = ''''\<rparr>)
     = \<lparr>status = 200, json = JObj [(''received'', JBool True)]\<rparr>
   \<and> fst (webhook \<lparr>preference_create = (\<lambda>pd. Inr []),
                 payment_get = (\<lambda>i. Inr [(''id'', JNum 123), (''status'', JStr ''refunded'')])\<rparr>
         \<lparr>req_body = JObj [(''type'', JStr ''payment''), (''data'', JObj [(''id'', JStr ''123'')])],
          req_protocol = ''https'', req_host = Some ''api.shop.pe'', req_params_id = ''''\<rparr>)
     = \<lparr>status = 200, json = JObj [(''received'', JBool True)]\<rparr>"
proof -
  let ?req = "\<lparr>req_body = JObj [(''type'', JStr ''payment''), (''data'', JObj [(''id'', JStr ''123'')])],
          req_protocol = ''https'', req_host = Some ''api.shop.pe'', req_params_id = ''''\<rparr>"
  have h: "js_prop (req_body ?req) ''type'' = JStr ''payment''"
    "\<not> nullish (js_prop (req_body ?req) ''data'')"
    by simp_all
  have g: "payment_get \<lparr>preference_create = (\<lambda>pd. Inr []),
                 payment_get = (\<lambda>i. Inr [(''id'', JNum 123), (''status'', JStr s)])\<rparr>
            (js_prop (js_prop (req_body ?req) ''data'') ''id'')
           = Inr [(''id'', JNum 123), (''status'', JStr s)]" for s
    by simp
  note w = webhook_payment_acknowledged [OF h g, THEN conjunct1]
  from w [of "''approved''"] w [of "''pending''"] w [of "''rejected''"] w [of "''refunded''"]
  show ?thesis by blast
qed

text \<open>
  C6. For every webhook request with a parsed body whose \<open>type\<close> is anything but
  \<open>'payment'\<close>, the answer is 200 with the body \<open>{received: true}\<close> and the
  gateway's payment lookup is not called.
\<close>

theorem webhook_other_type_acknowledged:
  assumes "\<not> nullish (req_body req)"
    and "js_prop (req_body req) ''type'' \<noteq> JStr ''payment''"
  shows "fst (webhook gw req) = \<lparr>status = 200, json = JObj [(''received'', JBool True)]\<rparr> \<and>
         (\<forall>paymentId. Payment_get paymentId \<notin> set (snd (webhook gw req)))"
  unfolding webhook_other_type [OF assms, of gw] by simp

theorem webhook_other_type_acknowledged_witness:
  "fst (webhook (gateway_rejecting (Error_instance ''must not be called''))
         \<lparr>req_body = JObj [(''type'', JStr ''merchant_order''),
                           (''data'', JObj [(''id'', JStr ''123'')])],
          req_protocol = ''https'', req_host = Some ''api.shop.pe'', req_params_id = ''''\<rparr>)
     = \<lparr>status = 200, json = JObj [(''received'', JBool True)]\<rparr>
   \<and> Payment_get (JStr ''123'') \<notin> set (snd (webhook
         (gateway_rejecting (Error_instance ''must not be called''))
         \<lparr>req_body = JObj [(''type'', JStr ''merchant_order''),
                           (''data'', JObj [(''id'', JStr ''123'')])],
          req_protocol = ''https'', req_host = Some ''api.shop.pe'', req_params_id = ''''\<rparr>))"
proof -
  let ?req = "\<lparr>req_body = JObj [(''type'', JStr ''merchant_order''),
                           (''data'', JObj [(''id'', JStr ''123'')])],
          req_protocol = ''https'', req_host = Some ''api.shop.pe'', req_params_id = ''''\<rparr>"
  have h: "\<not> nullish (req_body ?req)" "js_prop (req_body ?req) ''type'' \<noteq> JStr ''payment''"
    by simp_all
  from webhook_other_type_acknowledged [OF h] show ?thesis by blast
qed

text \<open>
  C9. For every webhook request in which something is thrown before the success
  response (no parsed body, type \<open>'payment'\<close> without \<open>data\<close>, or a lookup that the
  gateway rejects), the answer is 500 with the fixed body
  \<open>{error: 'Webhook processing failed'}\<close>, which holds nothing of what was thrown;
  and every run of the handler ends in one of its two responses.
\<close>

theorem webhook_failure_generic:
  "(\<forall>es e. webhook_try gw req = (es, Inl e) \<longrightarrow>
      fst (webhook gw req) =
        \<lparr>status = 500, json = JObj [(''error'', JStr ''Webhook processing failed'')]\<rparr>) \<and>
   (nullish (req_body req) \<longrightarrow>
      fst (webhook gw req) =
        \<lparr>status = 500, json = JObj [(''error'', JStr ''Webhook processing failed'')]\<rparr>) \<and>
   (js_prop (req_body req) ''type'' = JStr ''payment'' \<and>
    nullish (js_prop (req_body req) ''data'') \<longrightarrow>
      fst (webhook gw req) =
        \<lparr>status = 500, json = JObj [(''error'', JStr ''Webhook processing failed'')]\<rparr>) \<and>
   (\<forall>e. js_prop (req_body req) ''type'' = JStr ''payment'' \<and>
        \<not> nullish (js_prop (req_body req) ''data'') \<and>
        payment_get gw (js_prop (js_prop (req_body req) ''data'') ''id'') = Inl e \<longrightarrow>
      fst (webhook gw req) =
        \<lparr>status = 500, json = JObj [(''error'', JStr ''Webhook processing failed'')]\<rparr>) \<and>
   (fst (webhook gw req) = \<lparr>status = 200, json = JObj [(''received'', JBool True)]\<rparr> \<or>
    fst (webhook gw req) =
      \<lparr>status = 500, json = JObj [(''error'', JStr ''Webhook processing failed'')]\<rparr>)"
proof (intro conjI allI impI)
  fix es e
  assume "webhook_try gw req = (es, Inl e)"
  then show "fst (webhook gw req) =
        \<lparr>status = 500, json = JObj [(''error'', JStr ''Webhook processing failed'')]\<rparr>"
    by (simp add: webhook_def)
next
  assume "nullish (req_body req)"
  from webhook_no_body [OF this, of gw]
  show "fst (webhook gw req) =
        \<lparr>status = 500, json = JObj [(''error'', JStr ''Webhook processing failed'')]\<rparr>"
    by auto
next
  assume "js_prop (req_body req) ''type'' = JStr ''payment'' \<and>
    nullish (js_prop (req_body req) ''data'')"
  then have a: "js_prop (req_body req) ''type'' = JStr ''payment''"
    and b: "nullish (js_prop (req_body req) ''data'')" by simp_all
  from webhook_no_data [OF a b, of gw]
  show "fst (webhook gw req) =
        \<lparr>status = 500, json = JObj [(''error'', JStr ''Webhook processing failed'')]\<rparr>"
    by auto
next
  fix e
  assume "js_prop (req_body req) ''type'' = JStr ''payment'' \<and>
        \<not> nullish (js_prop (req_body req) ''data'') \<and>
        payment_get gw (js_prop (js_prop (req_body req) ''data'') ''id'') = Inl e"
  then have a: "js_prop (req_body req) ''type'' = JStr ''payment''"
    and b: "\<not> nullish (js_prop (req_body req) ''data'')"
    and c: "payment_get gw (js_prop (js_prop (req_body req) ''data'') ''id'') = Inl e"
    by simp_all
  show "fst (webhook gw req) =
        \<lparr>status = 500, json = JObj [(''error'', JStr ''Webhook processing failed'')]\<rparr>"
    unfolding webhook_lookup [OF a b, of gw] using c by (simp add: Let_def)
next
  show "fst (webhook gw req) = \<lparr>status = 200, json = JObj [(''received'', JBool True)]\<rparr> \<or>
    fst (webhook gw req) =
      \<lparr>status = 500, json = JObj [(''error'', JStr ''Webhook processing failed'')]\<rparr>"
  proof (cases "nullish (req_body req)")
    case True
    from webhook_no_body [OF this, of gw] show ?thesis by auto
  next
    case nn: False
    show ?thesis
    proof (cases "js_prop (req_body req) ''type'' = JStr ''payment''")
      case False
      from webhook_other_type [OF nn this, of gw] show ?thesis by simp
    next
      case ty: True
      show ?thesis
      proof (cases "nullish (js_prop (req_body req) ''data'')")
        case True
        from webhook_no_data [OF ty this, of gw] show ?thesis by auto
      next
        case False
        show ?thesis
          unfolding webhook_lookup [OF ty False, of gw]
          by (simp add: Let_def split: sum.splits)
      qed
    qed
  qed
qed

theorem webhook_failure_generic_witness:
  "fst (webhook \<lparr>preference_create = (\<lambda>pd. Inr []),
                 payment_get = (\<lambda>i. Inr [(''status'', JStr ''approved'')])\<rparr>
         \<lparr>req_body = JObj [(''type'', JStr ''payment'')],
          req_protocol = ''https'', req_host = Some ''api.shop.pe'', req_params_id = ''''\<rparr>)
     = \<lparr>status = 500, json = JObj [(''error'', JStr ''Webhook processing failed'')]\<rparr>
   \<and> fst (webhook (gateway_rejecting (Error_instance ''connect ETIMEDOUT''))
         \<lparr>req_body = JObj [(''type'', JStr ''payment''), (''data'', JObj [(''id'', JStr ''123'')])],
          req_protocol = ''https'', req_host = Some ''api.shop.pe'', req_params_id = ''''\<rparr>)
     = \<lparr>status = 500, json = JObj [(''error'', JStr ''Webhook processing failed'')]\<rparr>
   \<and> fst (webhook (gateway_rejecting (Error_instance ''connect ETIMEDOUT''))
         \<lparr>req_body = JUndefined,
          req_protocol = ''https'', req_host = Some ''api.shop.pe'', req_params_id = ''''\<rparr>)
     = \<lparr>status = 500, json = JObj [(''error'', JStr ''Webhook processing failed'')]\<rparr>"
proof -
  let ?gw = "\<lparr>preference_create = (\<lambda>pd. Inr []),
                 payment_get = (\<lambda>i. Inr [(''status'', JStr ''approved'')])\<rparr>"
  let ?rj = "gateway_rejecting (Error_instance ''connect ETIMEDOUT'')"
  let ?a = "\<lparr>req_body = JObj [(''type'', JStr ''payment'')],
          req_protocol = ''https'', req_host = Some ''api.shop.pe'', req_params_id = ''''\<rparr>"
  let ?b = "\<lparr>req_body = JObj [(''type'', JStr ''payment''), (''data'', JObj [(''id'', JStr ''123'')])],
          req_protocol = ''https'', req_host = Some ''api.shop.pe'', req_params_id = ''''\<rparr>"
  let ?c = "\<lparr>req_body = JUndefined,
          req_protocol = ''https'', req_host = Some ''api.shop.pe'', req_params_id = ''''\<rparr>"
  have a: "js_prop (req_body ?a) ''type'' = JStr ''payment'' \<and>
           nullish (js_prop (req_body ?a) ''data'')"
    by simp
  have b: "js_prop (req_body ?b) ''type'' = JStr ''payment'' \<and>
           \<not> nullish (js_prop (req_body ?b) ''data'') \<and>
           payment_get ?rj (js_prop (js_prop (req_body ?b) ''data'') ''id'')
             = Inl (Error_instance ''connect ETIMEDOUT'')"
    by (simp add: gateway_rejecting_def)
  have c: "nullish (req_body ?c)" by simp
  from webhook_failure_generic [of ?gw ?a] a
  have "fst (webhook ?gw ?a) =
      \<lparr>status = 500, json = JObj [(''error'', JStr ''Webhook processing failed'')]\<rparr>"
    by blast
  moreover from webhook_failure_generic [of ?rj ?b] b
  have "fst (webhook ?rj ?b) =
      \<lparr>status = 500, json = JObj [(''error'', JStr ''Webhook processing failed'')]\<rparr>"
    by blast
  moreover from webhook_failure_generic [of ?rj ?c] c
  have "fst (webhook ?rj ?c) =
      \<lparr>status = 500, json = JObj [(''error'', JStr ''Webhook processing failed'')]\<rparr>"
    by blast
  ultimately show ?thesis by blast
qed

section \<open>Claims about GET /api/payment/:id and the failure detail\<close>

text \<open>
  C7. For every payment request, when the gateway lookup succeeds the body holds exactly
  \<open>id\<close>, \<open>status\<close>, \<open>status_detail\<close>, \<open>transaction_amount\<close>, \<open>currency_id\<close>,
  \<open>payment_method_id\<close>, \<open>external_reference\<close> and \<open>date_created\<close>, each as read from
  the gateway's payment; when the lookup is rejected the answer is 500 with a body of
  exactly two properties, both strings: \<open>error\<close>, the fixed text
  \<open>'Error getting payment information'\<close>, and \<open>details\<close>, the message of a thrown
  \<^verbatim>\<open>Error\<close> or \<open>'Unknown error'\<close> for any other thrown value.
\<close>

theorem get_payment_projection:
  "(\<forall>paymentInfo. payment_get gw (JStr (req_params_id req)) = Inr paymentInfo \<longrightarrow>
      fst (get_payment gw req) =
        \<lparr>status = 200,
         json = JObj [(''id'', js_prop (JObj paymentInfo) ''id''),
                      (''status'', js_prop (JObj paymentInfo) ''status''),
                      (''status_detail'', js_prop (JObj paymentInfo) ''status_detail''),
                      (''transaction_amount'', js_prop (JObj paymentInfo) ''transaction_amount''),
                      (''currency_id'', js_prop (JObj paymentInfo) ''currency_id''),
                      (''payment_method_id'', js_prop (JObj paymentInfo) ''payment_method_id''),
                      (''external_reference'', js_prop (JObj paymentInfo) ''external_reference''),
                      (''date_created'', js_prop (JObj paymentInfo) ''date_created'')]\<rparr>) \<and>
   (\<forall>message. payment_get gw (JStr (req_params_id req)) = Inl (Error_instance message) \<longrightarrow>
      fst (get_payment gw req) =
        \<lparr>status = 500,
         json = JObj [(''error'', JStr ''Error getting payment information''),
                      (''details'', JStr message)]\<rparr>) \<and>
   (\<forall>v. payment_get gw (JStr (req_params_id req)) = Inl (Non_error v) \<longrightarrow>
      fst (get_payment gw req) =
        \<lparr>status = 500,
         json = JObj [(''error'', JStr ''Error getting payment information''),
                      (''details'', JStr ''Unknown error'')]\<rparr>)"
  unfolding get_payment_run by simp

theorem get_payment_projection_witness:
  "fst (get_payment
         \<lparr>preference_create = (\<lambda>pd. Inr []),
          payment_get = (\<lambda>i. Inr [(''id'', JNum 123),
                                   (''status'', JStr ''approved''),
                                   (''status_detail'', JStr ''accredited''),
                                   (''transaction_amount'', JNum (1999 / 100)),
                                   (''currency_id'', JStr ''PEN''),
                                   (''payment_method_id'', JStr ''visa''),
                                   (''external_reference'', JStr ''order_1700000000000''),
                                   (''date_created'', JStr ''2023-11-14T22:13:20.000-04:00''),
                                   (''payer'', JObj [(''email'', JStr ''a@b.pe'')])])\<rparr>
         \<lparr>req_body = JUndefined, req_protocol = ''https'', req_host = Some ''api.shop.pe'',
          req_params_id = ''123''\<rparr>)
     = \<lparr>status = 200,
        json = JObj [(''id'', JNum 123),
                     (''status'', JStr ''approved''),
                     (''status_detail'', JStr ''accredited''),
                     (''transaction_amount'', JNum (1999 / 100)),
                     (''currency_id'', JStr ''PEN''),
                     (''payment_method_id'', JStr ''visa''),
                     (''external_reference'', JStr ''order_1700000000000''),
                     (''date_created'', JStr ''2023-11-14T22:13:20.000-04:00'')]\<rparr>
   \<and> fst (get_payment (gateway_rejecting (Error_instance ''Payment not found''))
         \<lparr>req_body = JUndefined, req_protocol = ''https'', req_host = Some ''api.shop.pe'',
          req_params_id = ''123''\<rparr>)
     = \<lparr>status = 500,
        json = JObj [(''error'', JStr ''Error getting payment information''),
                     (''details'', JStr ''Payment not found'')]\<rparr>
   \<and> fst (get_payment (gateway_rejecting (Non_error (JStr ''gateway down'')))
         \<lparr>req_body = JUndefined, req_protocol = ''https'', req_host = Some ''api.shop.pe'',
          req_params_id = ''123''\<rparr>)
     = \<lparr>status = 500,
        json = JObj [(''error'', JStr ''Error getting payment information''),
                     (''details'', JStr ''Unknown error'')]\<rparr>"
proof -
  let ?info = "[(''id'', JNum 123),
                                   (''status'', JStr ''approved''),
                                   (''status_detail'', JStr ''accredited''),
                                   (''transaction_amount'', JNum (1999 / 100)),
                                   (''currency_id'', JStr ''PEN''),
                                   (''payment_method_id'', JStr ''visa''),
                                   (''external_reference'', JStr ''order_1700000000000''),
                                   (''date_created'', JStr ''2023-11-14T22:13:20.000-04:00''),
                                   (''payer'', JObj [(''email'', JStr ''a@b.pe'')])]"
  let ?gw = "\<lparr>preference_create = (\<lambda>pd. Inr []), payment_get = (\<lambda>i. Inr ?info)\<rparr>"
  let ?rj = "gateway_rejecting (Error_instance ''Payment not found'')"
  let ?rk = "gateway_rejecting (Non_error (JStr ''gateway down''))"
  let ?req = "\<lparr>req_body = JUndefined, req_protocol = ''https'', req_host = Some ''api.shop.pe'',
          req_params_id = ''123''\<rparr>"
  have a: "payment_get ?gw (JStr (req_params_id ?req)) = Inr ?info" by simp
  have b: "payment_get ?rj (JStr (req_params_id ?req)) = Inl (Error_instance ''Payment not found'')"
    by (simp add: gateway_rejecting_def)
  have c: "payment_get ?rk (JStr (req_params_id ?req)) = Inl (Non_error (JStr ''gateway down''))"
    by (simp add: gateway_rejecting_def)
  from get_payment_projection [of ?gw ?req, THEN conjunct1, rule_format, OF a]
  have "fst (get_payment ?gw ?req) = \<lparr>status = 200,
        json = JObj [(''id'', JNum 123),
                     (''status'', JStr ''approved''),
                     (''status_detail'', JStr ''accredited''),
                     (''transaction_amount'', JNum (1999 / 100)),
                     (''currency_id'', JStr ''PEN''),
                     (''payment_method_id'', JStr ''visa''),
                     (''external_reference'', JStr ''order_1700000000000''),
                     (''date_created'', JStr ''2023-11-14T22:13:20.000-04:00'')]\<rparr>"
    by simp
  moreover
  from get_payment_projection [of ?rj ?req, THEN conjunct2, THEN conjunct1, rule_format, OF b]
  have "fst (get_payment ?rj ?req) = \<lparr>status = 500,
        json = JObj [(''error'', JStr ''Error getting payment information''),
                     (''details'', JStr ''Payment not found'')]\<rparr>" .
  moreover
  from get_payment_projection [of ?rk ?req, THEN conjunct2, THEN conjunct2, rule_format, OF c]
  have "fst (get_payment ?rk ?req) = \<lparr>status = 500,
        json = JObj [(''error'', JStr ''Error getting payment information''),
                     (''details'', JStr ''Unknown error'')]\<rparr>" .
  ultimately show ?thesis by blast
qed

text \<open>
  C8 as stated does not hold. The gateway rejects a lookup with the plain object
  \<open>{message: 'invalid access token', status: 401}\<close>: the failure carries a message,
  but the object is not an \<^verbatim>\<open>Error\<close>, so \<open>details\<close> is \<open>'Unknown error'\<close> and
  not that message.
\<close>

theorem gateway_failure_details_counterexample:
  "spec_carried_message
     (Non_error (JObj [(''message'', JStr ''invalid access token''), (''status'', JNum 401)]))
     = Some ''invalid access token''
   \<and> payment_get
       (gateway_rejecting
          (Non_error (JObj [(''message'', JStr ''invalid access token''), (''status'', JNum 401)])))
       (JStr ''123'')
     = Inl (Non_error (JObj [(''message'', JStr ''invalid access token''), (''status'', JNum 401)]))
   \<and> fst (get_payment
       (gateway_rejecting
          (Non_error (JObj [(''message'', JStr ''invalid access token''), (''status'', JNum 401)])))
       \<lparr>req_body = JUndefined, req_protocol = ''https'', req_host = Some ''api.shop.pe'',
        req_params_id = ''123''\<rparr>)
     = \<lparr>status = 500,
        json = JObj [(''error'', JStr ''Error getting payment information''),
                     (''details'', JStr ''Unknown error'')]\<rparr>
   \<and> js_prop (json (fst (get_payment
       (gateway_rejecting
          (Non_error (JObj [(''message'', JStr ''invalid access token''), (''status'', JNum 401)])))
       \<lparr>req_body = JUndefined, req_protocol = ''https'', req_host = Some ''api.shop.pe'',
        req_params_id = ''123''\<rparr>))) ''details''
     \<noteq> JStr (spec_details
         (Non_error (JObj [(''message'', JStr ''invalid access token''), (''status'', JNum 401)])))"
  by (simp add: get_payment_run gateway_rejecting_def spec_details_def)

text \<open>
  C8, amended. For every gateway failure during POST /create-preference or
  GET /payment/:id, the answer is 500 and its \<open>details\<close> is the thrown value's message
  when that value is an instance of \<^verbatim>\<open>Error\<close>, and \<open>'Unknown error'\<close> otherwise
  (whether or not the value has a \<open>message\<close> property).
\<close>

theorem gateway_failure_details:
  "(\<forall>pd e. Preference_create pd \<in> set (snd (create_preference ev gw now req)) \<and>
           preference_create gw pd = Inl e \<longrightarrow>
      fst (create_preference ev gw now req) =
        \<lparr>status = 500,
         json = JObj [(''error'', JStr ''Error creating payment preference''),
                      (''details'',
                         JStr (case e of Error_instance message \<Rightarrow> message
                                | Non_error v \<Rightarrow> ''Unknown error''))]\<rparr>) \<and>
   (\<forall>e. payment_get gw (JStr (req_params_id req)) = Inl e \<longrightarrow>
      fst (get_payment gw req) =
        \<lparr>status = 500,
         json = JObj [(''error'', JStr ''Error getting payment information''),
                      (''details'',
                         JStr (case e of Error_instance message \<Rightarrow> message
                                | Non_error v \<Rightarrow> ''Unknown error''))]\<rparr>)"
proof (intro conjI allI impI)
  fix pd e
  assume a: "Preference_create pd \<in> set (snd (create_preference ev gw now req)) \<and>
           preference_create gw pd = Inl e"
  then have sent: "Preference_create pd \<in> set (snd (create_preference ev gw now req))"
    and rej: "preference_create gw pd = Inl e" by simp_all
  from create_preference_sent [OF sent]
  obtain its outs where its: "js_prop (req_body req) ''items'' = JArr its" "its \<noteq> []"
    and outs: "map_items its = Inr outs"
    and pd: "pd = preferenceData ev now req (JArr outs) (js_prop (req_body req) ''payer'')"
    by blast
  show "fst (create_preference ev gw now req) =
        \<lparr>status = 500,
         json = JObj [(''error'', JStr ''Error creating payment preference''),
                      (''details'',
                         JStr (case e of Error_instance message \<Rightarrow> message
                                | Non_error v \<Rightarrow> ''Unknown error''))]\<rparr>"
    unfolding create_preference_run [OF its outs, of ev gw now]
    using rej pd by (cases e) (simp_all add: Let_def)
next
  fix e
  assume "payment_get gw (JStr (req_params_id req)) = Inl e"
  then show "fst (get_payment gw req) =
        \<lparr>status = 500,
         json = JObj [(''error'', JStr ''Error getting payment information''),
                      (''details'',
                         JStr (case e of Error_instance message \<Rightarrow> message
                                | Non_error v \<Rightarrow> ''Unknown error''))]\<rparr>"
    unfolding get_payment_run by (cases e) simp_all
qed

theorem gateway_failure_details_witness:
  "fst (get_payment (gateway_rejecting (Error_instance ''The operation was aborted''))
         \<lparr>req_body = JUndefined, req_protocol = ''https'', req_host = Some ''api.shop.pe'',
          req_params_id = ''123''\<rparr>)
     = \<lparr>status = 500,
        json = JObj [(''error'', JStr ''Error getting payment information''),
                     (''details'', JStr ''The operation was aborted'')]\<rparr>
   \<and> fst (get_payment
         (gateway_rejecting (Non_error (JObj [(''message'', JStr ''invalid access token'')])))
         \<lparr>req_body = JUndefined, req_protocol = ''https'', req_host = Some ''api.shop.pe'',
          req_params_id = ''123''\<rparr>)
     = \<lparr>status = 500,
        json = JObj [(''error'', JStr ''Error getting payment information''),
                     (''details'', JStr ''Unknown error'')]\<rparr>
   \<and> fst (create_preference \<lparr>FRONTEND_URL = Some ''https://shop.pe''\<rparr>
         (gateway_rejecting (Error_instance ''The operation was aborted''))
         1700000000000
         \<lparr>req_body = JObj [(''items'', JArr [JObj [(''id'', JStr ''sku-1'')]])],
          req_protocol = ''https'', req_host = Some ''api.shop.pe'', req_params_id = ''''\<rparr>)
     = \<lparr>status = 500,
        json = JObj [(''error'', JStr ''Error creating payment preference''),
                     (''details'', JStr ''The operation was aborted'')]\<rparr>"
proof -
  let ?ev = "\<lparr>FRONTEND_URL = Some ''https://shop.pe''\<rparr>"
  let ?e1 = "Error_instance ''The operation was aborted''"
  let ?e2 = "Non_error (JObj [(''message'', JStr ''invalid access token'')])"
  let ?r = "\<lparr>req_body = JUndefined, req_protocol = ''https'', req_host = Some ''api.shop.pe'',
          req_params_id = ''123''\<rparr>"
  let ?its = "[JObj [(''id'', JStr ''sku-1'')]]"
  let ?req = "\<lparr>req_body = JObj [(''items'', JArr ?its)],
          req_protocol = ''https'', req_host = Some ''api.shop.pe'', req_params_id = ''''\<rparr>"
  have a: "payment_get (gateway_rejecting ?e1) (JStr (req_params_id ?r)) = Inl ?e1"
    by (simp add: gateway_rejecting_def)
  have b: "payment_get (gateway_rejecting ?e2) (JStr (req_params_id ?r)) = Inl ?e2"
    by (simp add: gateway_rejecting_def)
  have h1: "js_prop (req_body ?req) ''items'' = JArr ?its" by simp
  have "\<forall>it \<in> set ?its. \<not> nullish it" by simp
  from map_items_ok [OF this] obtain outs where m: "map_items ?its = Inr outs" ..
  from create_preference_run [OF h1 _ m, of ?ev "gateway_rejecting ?e1" 1700000000000]
  obtain pd where
    c: "Preference_create pd \<in> set (snd (create_preference ?ev (gateway_rejecting ?e1) 1700000000000 ?req))
        \<and> preference_create (gateway_rejecting ?e1) pd = Inl ?e1"
    by (simp add: Let_def gateway_rejecting_def)
  from gateway_failure_details [of ?ev "gateway_rejecting ?e1" 1700000000000 ?r,
      THEN conjunct2, rule_format, OF a]
  have "fst (get_payment (gateway_rejecting ?e1) ?r) = \<lparr>status = 500,
        json = JObj [(''error'', JStr ''Error getting payment information''),
                     (''details'', JStr ''The operation was aborted'')]\<rparr>"
    by simp
  moreover 
  from gateway_failure_details [of ?ev "gateway_rejecting ?e2" 1700000000000 ?r,
      THEN conjunct2, rule_format, OF b]
  have "fst (get_payment (gateway_rejecting ?e2) ?r) = \<lparr>status = 500,
        json = JObj [(''error'', JStr ''Error getting payment information''),
                     (''details'', JStr ''Unknown error'')]\<rparr>"
    by simp
  moreover 
  from gateway_failure_details [of ?ev "gateway_rejecting ?e1" 1700000000000 ?req,
      THEN conjunct1, rule_format, OF c]
  have "fst (create_preference ?ev (gateway_rejecting ?e1) 1700000000000 ?req) = \<lparr>status = 500,
        json = JObj [(''error'', JStr ''Error creating payment preference''),
                     (''details'', JStr ''The operation was aborted'')]\<rparr>"
    by simp
  ultimately show ?thesis by blast
qed

end
